theory Spec2Isabelle
  imports Main "HOL-Library.Word"
begin

section \<open>Formatting\<close>

text \<open>
  \<^verbatim>\<open>fmt.Sprintf\<close> as the label catalog and the searcher use it: every operand
  is a string (or the string type \<^verbatim>\<open>Cert\<close>) and every verb is \<^verbatim>\<open>%s\<close>, which
  copies its operand. A verb with no operand left prints \<^verbatim>\<open>%!s(MISSING)\<close>, as Go does.
  Every other character of the format is copied.
\<close>

fun Sprintf :: "string \<Rightarrow> string list \<Rightarrow> string" where
  "Sprintf [] args = []"
| "Sprintf [c] args = [c]"
| "Sprintf (c # d # fs) args =
     (if c = CHR ''%'' \<and> d = CHR ''s''
      then (case args of
              [] \<Rightarrow> ''%!s(MISSING)'' @ Sprintf fs []
            | a # as \<Rightarrow> a @ Sprintf fs as)
      else c # Sprintf (d # fs) args)"

section \<open>Label catalog (k8s.go)\<close>

definition certificateLabel :: string where
  "certificateLabel = ''giantswarm.io/certificate''"

definition clusterIDLabel :: string where
  "clusterIDLabel = ''giantswarm.io/cluster-id''"

definition legacyCertificateLabel :: string where
  "legacyCertificateLabel = ''clusterComponent''"

definition legacyClusterIDLabel :: string where
  "legacyClusterIDLabel = ''clusterID''"

definition SecretNamespace :: string where
  "SecretNamespace = ''default''"

text \<open>\<^verbatim>\<open>type Cert string\<close>: a certificate name.\<close>

type_synonym Cert = string

definition APICert :: Cert where "APICert = ''api''"
definition CalicoCert :: Cert where "CalicoCert = ''calico''"
definition CalicoEtcdClientCert :: Cert where "CalicoEtcdClientCert = ''calico-etcd-client''"
definition ClusterOperatorAPICert :: Cert where "ClusterOperatorAPICert = ''cluster-operator-api''"
definition EtcdCert :: Cert where "EtcdCert = ''etcd''"
definition FlanneldEtcdClientCert :: Cert where "FlanneldEtcdClientCert = ''flanneld-etcd-client''"
definition NodeOperatorCert :: Cert where "NodeOperatorCert = ''node-operator''"
definition PrometheusCert :: Cert where "PrometheusCert = ''prometheus''"
definition ServiceAccountCert :: Cert where "ServiceAccountCert = ''service-account''"
definition WorkerCert :: Cert where "WorkerCert = ''worker''"

definition AllCerts :: "Cert list" where
  "AllCerts = [APICert, CalicoCert, CalicoEtcdClientCert, ClusterOperatorAPICert, EtcdCert,
     FlanneldEtcdClientCert, NodeOperatorCert, PrometheusCert, ServiceAccountCert, WorkerCert]"

definition K8sSecretName :: "string \<Rightarrow> Cert \<Rightarrow> string" where
  "K8sSecretName clusterID certificate = Sprintf ''%s-%s'' [clusterID, certificate]"

text \<open>
  The map literal of \<^verbatim>\<open>K8sSecretLabels\<close>, its four entries in the order of the source.
\<close>

definition K8sSecretLabels :: "string \<Rightarrow> Cert \<Rightarrow> (string \<rightharpoonup> string)" where
  "K8sSecretLabels clusterID certificate =
     [certificateLabel \<mapsto> certificate,
      clusterIDLabel \<mapsto> clusterID,
      legacyCertificateLabel \<mapsto> certificate,
      legacyClusterIDLabel \<mapsto> clusterID]"

section \<open>Errors (microerror)\<close>

text \<open>
  Modelled from the spec: the error kinds of the package, whose declarations
  (\<^verbatim>\<open>invalidConfigError\<close>, \<^verbatim>\<open>executionFailedError\<close>, \<^verbatim>\<open>timeoutError\<close>,
  \<^verbatim>\<open>wrongTypeError\<close>, \<^verbatim>\<open>invalidSecretError\<close>) are not in the source files at hand.
  Each identifier that searcher.go passes to \<^verbatim>\<open>microerror.Maskf\<close> is one kind of
  the error taxonomy; two uses of one identifier are one kind.
\<close>

datatype error_kind =
  invalidConfigError
| executionFailedError
| timeoutError
| wrongTypeError
| invalidSecretError

text \<open>The objects a watch event can carry (\<^verbatim>\<open>runtime.Object\<close>), below.\<close>

type_synonym bytes = "8 word list"

record Secret =
  Labels :: "string \<rightharpoonup> string"
  Data :: "string \<rightharpoonup> bytes"

text \<open>
  A \<^verbatim>\<open>runtime.Object\<close> interface value: the nil interface, a \<^verbatim>\<open>*corev1.Secret\<close>
  (whose pointer may itself be nil), or an object of another type, such as the status
  object of an error event.
\<close>

datatype runtime_object =
  NilObject
| SecretObject "Secret option"
| StatusObject string

text \<open>
  An operand of an error message. The message of \<^verbatim>\<open>microerror.Maskf\<close> is kept as
  its format and its operands: a string (printed by \<^verbatim>\<open>%q\<close>, or the name of a static
  type printed by \<^verbatim>\<open>%T\<close>) or an event object (its dynamic type printed by \<^verbatim>\<open>%T\<close>,
  or the error \<^verbatim>\<open>apierrors.FromObject\<close> makes of it printed by \<^verbatim>\<open>%v\<close>).
\<close>

datatype operand = Str string | Obj runtime_object

text \<open>
  An error value: one made by \<^verbatim>\<open>microerror.Maskf\<close> from a kind of this package, or
  one returned by the store client. \<^verbatim>\<open>Maskf\<close> renders its message; the value here
  keeps the format and the operands apart. Two values of different formats or operands
  may render the same message, so nothing below is concluded from two error values
  being unequal: errors are compared by their kind.
\<close>

datatype error =
  Maskf error_kind string "operand list"
| ClientError string

fun kind :: "error \<Rightarrow> error_kind option" where
  "kind (Maskf k f ops) = Some k"
| "kind (ClientError m) = None"

fun format :: "error \<Rightarrow> string" where
  "format (Maskf k f ops) = f"
| "format (ClientError m) = m"

fun operands :: "error \<Rightarrow> operand list" where
  "operands (Maskf k f ops) = ops"
| "operands (ClientError m) = []"

text \<open>
  \<^verbatim>\<open>microerror.Mask\<close> records the call site on the error and keeps its cause, which
  is what the kind of an error is read from.
\<close>

definition Mask :: "error \<Rightarrow> error" where
  "Mask err = err"

section \<open>The store client and its watch\<close>

datatype event_type = Added | Modified | Deleted | Bookmark | Error

record Event =
  Type :: event_type
  Object :: runtime_object

text \<open>
  What one \<^verbatim>\<open>select\<close> of the search loop wakes up on: an event received on the
  result channel of the watcher, that channel found closed, or the channel of
  \<^verbatim>\<open>time.After(s.watchTimeout)\<close>. A watcher is the sequence of these outcomes, one
  for each turn of the loop, as long as it has been observed.
\<close>

datatype wakeup = Recv Event | Closed | TimerFired

type_synonym watcher = "wakeup list"

record ListOptions =
  LabelSelector :: string

text \<open>
  Of \<^verbatim>\<open>kubernetes.Interface\<close> the searcher uses
  \<^verbatim>\<open>CoreV1().Secrets(namespace).Watch(ctx, options)\<close> alone: the client is that
  function of the namespace and the options. The calls made on the client and on
  the watcher are recorded in order.
\<close>

type_synonym k8s_client = "string \<Rightarrow> ListOptions \<Rightarrow> error + watcher"

datatype call = WatchCall string ListOptions | StopCall

text \<open>
  The call \<^verbatim>\<open>Watch\<close> on the client: what the client answers for the namespace
  and the options it is called with, and the record of that call.
\<close>

definition Watch :: "k8s_client \<Rightarrow> string \<Rightarrow> ListOptions \<Rightarrow> (error + watcher) \<times> call list" where
  "Watch client namespace opts = (client namespace opts, [WatchCall namespace opts])"

datatype logger = MicroLogger

section \<open>The searcher (pkg/certs/searcher.go)\<close>

text \<open>\<^verbatim>\<open>time.Duration\<close> is a 64-bit count of nanoseconds.\<close>

type_synonym Duration = "64 word"

definition Second :: Duration where
  "Second = 1000000000"

definition DefaultWatchTimeout :: Duration where
  "DefaultWatchTimeout = 3 * Second"

record Config =
  K8sClient :: "k8s_client option"
  Logger :: "logger option"
  WatchTimeout :: Duration

record Searcher =
  k8sClient :: k8s_client
  logger :: logger
  watchTimeout :: Duration

text \<open>
  \<^verbatim>\<open>NewSearcher\<close> returns \<^verbatim>\<open>(nil, err)\<close> or \<^verbatim>\<open>(s, nil)\<close>. The operand of
  \<^verbatim>\<open>%T\<close> is the configuration, whose type is \<^verbatim>\<open>certs.Config\<close>.
\<close>

definition NewSearcher :: "Config \<Rightarrow> error + Searcher" where
  "NewSearcher config =
     (case K8sClient config of
        None \<Rightarrow> Inl (Maskf invalidConfigError ''%T.K8sClient must not be empty''
                      [Str ''certs.Config''])
      | Some client \<Rightarrow>
          (case Logger config of
             None \<Rightarrow> Inl (Maskf invalidConfigError ''%T.Logger must not be empty''
                           [Str ''certs.Config''])
           | Some lg \<Rightarrow>
               (let config = (if WatchTimeout config = 0
                              then config\<lparr>WatchTimeout := DefaultWatchTimeout\<rparr>
                              else config)
                in Inr \<lparr>k8sClient = client, logger = lg,
                         watchTimeout = WatchTimeout config\<rparr>)))"

text \<open>
  Modelled from the spec: the type \<^verbatim>\<open>TLS\<close> and the bundle structs
  \<^verbatim>\<open>AppOperator\<close>, \<^verbatim>\<open>ClusterOperator\<close>, \<^verbatim>\<open>Draining\<close> and \<^verbatim>\<open>Monitoring\<close>, whose
  declarations are not in the source files at hand. A TLS value has the three byte
  sequences searcher.go assigns (\<^verbatim>\<open>CA\<close>, \<^verbatim>\<open>Crt\<close>, \<^verbatim>\<open>Key\<close>); each bundle is a
  struct of TLS fields, the ones searcher.go takes the address of.
\<close>

record TLS =
  CA :: bytes
  Crt :: bytes
  Key :: bytes

record AppOperator =
  APIServer :: TLS

record ClusterOperator =
  APIServer :: TLS

record Draining =
  NodeOperator :: TLS

record Monitoring =
  Prometheus :: TLS

text \<open>The zero values \<^verbatim>\<open>TLS{}\<close>, \<^verbatim>\<open>AppOperator{}\<close> and so on.\<close>

definition TLS_zero :: TLS where
  "TLS_zero = \<lparr>CA = [], Crt = [], Key = []\<rparr>"

definition AppOperator_zero :: AppOperator where
  "AppOperator_zero = \<lparr>AppOperator.APIServer = TLS_zero\<rparr>"

definition ClusterOperator_zero :: ClusterOperator where
  "ClusterOperator_zero = \<lparr>ClusterOperator.APIServer = TLS_zero\<rparr>"

definition Draining_zero :: Draining where
  "Draining_zero = \<lparr>NodeOperator = TLS_zero\<rparr>"

definition Monitoring_zero :: Monitoring where
  "Monitoring_zero = \<lparr>Prometheus = TLS_zero\<rparr>"

text \<open>
  Reading a Go map: \<^verbatim>\<open>m[k]\<close> is the zero value when the key is absent, and
  \<^verbatim>\<open>v, ok = m[k]\<close> also says whether it was present.
\<close>

definition index_label :: "(string \<rightharpoonup> string) \<Rightarrow> string \<Rightarrow> string" where
  "index_label m k = (case m k of None \<Rightarrow> [] | Some v \<Rightarrow> v)"

definition index_data :: "(string \<rightharpoonup> bytes) \<Rightarrow> string \<Rightarrow> bytes \<times> bool" where
  "index_data m k = (case m k of None \<Rightarrow> ([], False) | Some v \<Rightarrow> (v, True))"

text \<open>
  \<^verbatim>\<open>fillTLSFromSecret\<close> writes through the pointer \<^verbatim>\<open>tls\<close>: the model returns the
  TLS value as the call leaves it, with the error (\<open>None\<close> for nil). The label key
  \<^verbatim>\<open>clusterLabel\<close> is declared outside the source files at hand and is the
  parameter \<open>clusterLabel\<close> here and below.
\<close>

definition fillTLSFromSecret ::
  "string \<Rightarrow> TLS \<Rightarrow> Secret \<Rightarrow> string \<Rightarrow> Cert \<Rightarrow> TLS \<times> error option" where
  "fillTLSFromSecret clusterLabel tls secret cluster cert =
     (let l = index_label (Labels secret) clusterLabel in
      if cluster \<noteq> l
      then (tls, Some (Maskf invalidSecretError ''expected cluster = %q, got %q''
                        [Str cluster, Str l]))
      else
      let l = index_label (Labels secret) certificateLabel in
      if cert \<noteq> l
      then (tls, Some (Maskf invalidSecretError ''expected certificate = %q, got %q''
                        [Str cert, Str l]))
      else
      let (v, ok) = index_data (Data secret) ''ca''; tls = tls\<lparr>CA := v\<rparr> in
      if \<not> ok
      then (tls, Some (Maskf invalidSecretError ''%q key missing'' [Str ''ca'']))
      else
      let (v, ok) = index_data (Data secret) ''crt''; tls = tls\<lparr>Crt := v\<rparr> in
      if \<not> ok
      then (tls, Some (Maskf invalidSecretError ''%q key missing'' [Str ''crt'']))
      else
      let (v, ok) = index_data (Data secret) ''key''; tls = tls\<lparr>Key := v\<rparr> in
      if \<not> ok
      then (tls, Some (Maskf invalidSecretError ''%q key missing'' [Str ''key'']))
      else (tls, None))"

text \<open>
  One turn of the loop of \<^verbatim>\<open>search\<close>: the \<^verbatim>\<open>select\<close> and the \<^verbatim>\<open>switch\<close> on the
  event type. \<open>Some\<close> is a \<^verbatim>\<open>return\<close> (an error, or the secret with a nil error);
  \<open>None\<close> is the end of the loop body, after which the loop selects again. The
  type assertion on the object of an added event succeeds on a non-nil
  \<^verbatim>\<open>*corev1.Secret\<close> only.
\<close>

definition select_case :: "ListOptions \<Rightarrow> wakeup \<Rightarrow> (error + Secret) option" where
  "select_case opts w =
     (case w of
        Closed \<Rightarrow>
          Some (Inl (Maskf executionFailedError
            ''watching secrets, selector = %q: unexpected closed channel''
            [Str (LabelSelector opts)]))
      | Recv event \<Rightarrow>
          (case Type event of
             Added \<Rightarrow>
               (case Object event of
                  SecretObject (Some secret) \<Rightarrow> Some (Inr secret)
                | _ \<Rightarrow>
                    Some (Inl (Maskf wrongTypeError (''expected '%T', got '%T'' @ [CHR 0x27])
                      [Str ''*v1.Secret'', Obj (Object event)])))
           | Deleted \<Rightarrow> None
           | Error \<Rightarrow>
               Some (Inl (Maskf executionFailedError ''watching secrets, selector = %q: %v''
                 [Str (LabelSelector opts), Obj (Object event)]))
           | _ \<Rightarrow> None)
      | TimerFired \<Rightarrow>
          Some (Inl (Maskf timeoutError ''waiting secrets, selector = %q''
            [Str (LabelSelector opts)])))"

text \<open>
  The loop \<^verbatim>\<open>for { select { ... } }\<close> over the outcomes observed so far. \<open>None\<close>:
  every observed outcome has been consumed and the loop is blocked in its
  \<^verbatim>\<open>select\<close>; the call has not returned.
\<close>

fun search_loop :: "ListOptions \<Rightarrow> watcher \<Rightarrow> (error + Secret) option" where
  "search_loop opts [] = None"
| "search_loop opts (w # ws) =
     (case select_case opts w of
        Some r \<Rightarrow> Some r
      | None \<Rightarrow> search_loop opts ws)"

text \<open>
  \<^verbatim>\<open>search\<close>: the result (\<open>None\<close> while the call has not returned) and the calls
  made on the client, in order. \<^verbatim>\<open>defer watcher.Stop()\<close> runs when the function
  returns after the watch has been opened. The context is handed to the client
  unchanged and is left out; the parameter \<^verbatim>\<open>tls\<close> is not used by the body.
\<close>

definition search ::
  "Searcher \<Rightarrow> string \<Rightarrow> TLS \<Rightarrow> string \<Rightarrow> Cert \<Rightarrow> (error + Secret) option \<times> call list" where
  "search s clusterLabel tls clusterID cert =
     (let opts = \<lparr>LabelSelector =
            Sprintf ''%s=%s, %s=%s'' [certificateLabel, cert, clusterLabel, clusterID]\<rparr>
      in case Watch (k8sClient s) SecretNamespace opts of
           (Inl err, calls) \<Rightarrow> (Some (Inl (Mask err)), calls)
         | (Inr watcher, calls) \<Rightarrow>
             (case search_loop opts watcher of
                None \<Rightarrow> (None, calls)
              | Some r \<Rightarrow> (Some r, calls @ [StopCall])))"

text \<open>
  The public operations return a value with an error, as Go does: the zero value with
  the error, or the value with nil. \<open>None\<close>: the call has not returned.
\<close>

definition SearchTLS ::
  "Searcher \<Rightarrow> string \<Rightarrow> string \<Rightarrow> Cert \<Rightarrow> (TLS \<times> error option) option" where
  "SearchTLS s clusterLabel clusterID cert =
     (let tls = TLS_zero in
      case fst (search s clusterLabel tls clusterID cert) of
        None \<Rightarrow> None
      | Some (Inl err) \<Rightarrow> Some (TLS_zero, Some (Mask err))
      | Some (Inr secret) \<Rightarrow>
          (case fillTLSFromSecret clusterLabel tls secret clusterID cert of
             (tls, Some err) \<Rightarrow> Some (TLS_zero, Some (Mask err))
           | (tls, None) \<Rightarrow> Some (tls, None)))"

subsection \<open>Bundle searches\<close>

text \<open>
  A task of the \<^verbatim>\<open>errgroup.Group\<close> acts on the bundle struct the tasks share and
  returns an error or nil; \<open>None\<close> when it does not return. \<^verbatim>\<open>g.Wait()\<close> blocks
  until every task has returned and gives the first error recorded. The tasks are
  listed in the order in which they finish; each bundle below has one.
\<close>

type_synonym 'b task = "'b \<Rightarrow> ('b \<times> error option) option"

fun errgroup_Wait :: "'b task list \<Rightarrow> 'b \<Rightarrow> ('b \<times> error option) option" where
  "errgroup_Wait [] b = Some (b, None)"
| "errgroup_Wait (t # ts) b =
     (case t b of
        None \<Rightarrow> None
      | Some (b', err) \<Rightarrow>
          (case errgroup_Wait ts b' of
             None \<Rightarrow> None
           | Some (b'', err') \<Rightarrow>
               Some (b'', (case err of Some e \<Rightarrow> Some e | None \<Rightarrow> err'))))"

text \<open>
  The function handed to \<^verbatim>\<open>g.Go\<close>, the same text in the four bundle searches. The
  pointer \<^verbatim>\<open>c.TLS\<close> to a field of the bundle is the pair of the field's selector and
  its update.
\<close>

definition certificate_task ::
  "Searcher \<Rightarrow> string \<Rightarrow> string \<Rightarrow> ('b \<Rightarrow> TLS) \<times> (TLS \<Rightarrow> 'b \<Rightarrow> 'b) \<times> Cert \<Rightarrow> 'b task" where
  "certificate_task s clusterLabel clusterID c =
     (\<lambda>b. case c of (get, put, cert) \<Rightarrow>
        (case fst (search s clusterLabel (get b) clusterID cert) of
           None \<Rightarrow> None
         | Some (Inl err) \<Rightarrow> Some (b, Some (Mask err))
         | Some (Inr secret) \<Rightarrow>
             (case fillTLSFromSecret clusterLabel (get b) secret clusterID cert of
                (tls, Some err) \<Rightarrow> Some (put tls b, Some (Mask err))
              | (tls, None) \<Rightarrow> Some (put tls b, None))))"

text \<open>
  \<^verbatim>\<open>AppOperatorAPICert\<close> is declared outside the source files at hand and is a
  parameter of \<^verbatim>\<open>SearchAppOperator\<close>.
\<close>

definition SearchAppOperator ::
  "Searcher \<Rightarrow> string \<Rightarrow> Cert \<Rightarrow> string \<Rightarrow> (AppOperator \<times> error option) option" where
  "SearchAppOperator s clusterLabel AppOperatorAPICert clusterID =
     (let appOperator = AppOperator_zero;
          certificates =
            [(AppOperator.APIServer, (\<lambda>tls b. b\<lparr>AppOperator.APIServer := tls\<rparr>),
              AppOperatorAPICert)]
      in case errgroup_Wait (map (certificate_task s clusterLabel clusterID) certificates)
                appOperator of
           None \<Rightarrow> None
         | Some (appOperator, Some err) \<Rightarrow> Some (AppOperator_zero, Some (Mask err))
         | Some (appOperator, None) \<Rightarrow> Some (appOperator, None))"

definition SearchClusterOperator ::
  "Searcher \<Rightarrow> string \<Rightarrow> string \<Rightarrow> (ClusterOperator \<times> error option) option" where
  "SearchClusterOperator s clusterLabel clusterID =
     (let clusterOperator = ClusterOperator_zero;
          certificates =
            [(ClusterOperator.APIServer, (\<lambda>tls b. b\<lparr>ClusterOperator.APIServer := tls\<rparr>),
              ClusterOperatorAPICert)]
      in case errgroup_Wait (map (certificate_task s clusterLabel clusterID) certificates)
                clusterOperator of
           None \<Rightarrow> None
         | Some (clusterOperator, Some err) \<Rightarrow> Some (ClusterOperator_zero, Some (Mask err))
         | Some (clusterOperator, None) \<Rightarrow> Some (clusterOperator, None))"

definition SearchDraining ::
  "Searcher \<Rightarrow> string \<Rightarrow> string \<Rightarrow> (Draining \<times> error option) option" where
  "SearchDraining s clusterLabel clusterID =
     (let draining = Draining_zero;
          certificates =
            [(NodeOperator, (\<lambda>tls b. b\<lparr>NodeOperator := tls\<rparr>), NodeOperatorCert)]
      in case errgroup_Wait (map (certificate_task s clusterLabel clusterID) certificates)
                draining of
           None \<Rightarrow> None
         | Some (draining, Some err) \<Rightarrow> Some (Draining_zero, Some (Mask err))
         | Some (draining, None) \<Rightarrow> Some (draining, None))"

definition SearchMonitoring ::
  "Searcher \<Rightarrow> string \<Rightarrow> string \<Rightarrow> (Monitoring \<times> error option) option" where
  "SearchMonitoring s clusterLabel clusterID =
     (let monitoring = Monitoring_zero;
          certificates =
            [(Prometheus, (\<lambda>tls b. b\<lparr>Prometheus := tls\<rparr>), PrometheusCert)]
      in case errgroup_Wait (map (certificate_task s clusterLabel clusterID) certificates)
                monitoring of
           None \<Rightarrow> None
         | Some (monitoring, Some err) \<Rightarrow> Some (Monitoring_zero, Some (Mask err))
         | Some (monitoring, None) \<Rightarrow> Some (monitoring, None))"

section \<open>The watch in time\<close>

text \<open>
  When the result channel of a watcher has its items ready, in nanoseconds since the
  watch was opened: an event, or the closing of the channel.
\<close>

datatype delivery = Deliver nat Event | CloseAt nat

text \<open>
  The outcomes of the selects of the loop of \<^verbatim>\<open>search\<close>, from the times of the
  deliveries and the duration \<open>d\<close> handed to \<^verbatim>\<open>time.After\<close>. A turn of the loop
  that starts at the time \<open>now\<close> evaluates \<^verbatim>\<open>time.After(s.watchTimeout)\<close> anew
  (searcher.go, line 276): its timer fires at \<open>now + d\<close>, at once when \<open>d\<close> is not
  positive. The next item of the channel is ready at its time of delivery, or at
  \<open>now\<close> if it was delivered before. The select receives the item when it is ready
  before the timer fires, and the next turn starts then; otherwise the timer fires.
  When both are ready at the same instant Go takes either; the timer is taken here.
  When the channel has nothing more to deliver the timer fires. The loop body takes
  no time.
\<close>

fun select_outcomes :: "Duration \<Rightarrow> nat \<Rightarrow> delivery list \<Rightarrow> watcher" where
  "select_outcomes d now [] = [TimerFired]"
| "select_outcomes d now (Deliver t event # ds) =
     (if int (max now t) < int now + sint d
      then Recv event # select_outcomes d (max now t) ds
      else [TimerFired])"
| "select_outcomes d now (CloseAt t # ds) =
     (if int (max now t) < int now + sint d
      then [Closed]
      else [TimerFired])"

text \<open>
  A store whose watches come with the times of their deliveries, and the searcher
  with such a store as its client and the watch timeout \<open>d\<close>: the selects of its
  searches have the outcomes that its own watch timeout gives, the watch being opened
  at time 0.
\<close>

type_synonym store = "string \<Rightarrow> ListOptions \<Rightarrow> error + delivery list"

definition searcher_on :: "store \<Rightarrow> logger \<Rightarrow> Duration \<Rightarrow> Searcher" where
  "searcher_on st lg d =
     \<lparr>k8sClient = (\<lambda>namespace opts.
          case st namespace opts of
            Inl err \<Rightarrow> Inl err
          | Inr ds \<Rightarrow> Inr (select_outcomes d 0 ds)),
      logger = lg,
      watchTimeout = d\<rparr>"

section \<open>The cluster label\<close>

text \<open>
  Modelled from the spec: the constant \<^verbatim>\<open>clusterLabel\<close> that searcher.go uses,
  whose declaration is not in the source files at hand. The specification has the
  selector of a search match on the cluster-ID label of the current scheme; k8s.go
  declares that label as \<^verbatim>\<open>clusterIDLabel\<close>. The definitions above take the label as
  their parameter \<open>clusterLabel\<close>; this is the value the specification gives it.
\<close>

definition clusterLabel_spec :: string where
  "clusterLabel_spec = clusterIDLabel"

section \<open>Example scenario\<close>

text \<open>
  The scenario of the specification: cluster \<^verbatim>\<open>c-abc12\<close>, certificate
  \<^verbatim>\<open>cluster-operator-api\<close>, a secret with both labels and the data \<^verbatim>\<open>CA==\<close>,
  \<^verbatim>\<open>CRT==\<close>, \<^verbatim>\<open>KEY==\<close> (as bytes), and a store client that opens a watch for
  the selector of that pair in the namespace of the secrets and refuses every other
  request. The cluster label used in the scenario is \<^verbatim>\<open>giantswarm.io/cluster\<close>.
\<close>

definition example_secret :: Secret where
  "example_secret =
     \<lparr>Labels = [''giantswarm.io/cluster'' \<mapsto> ''c-abc12'',
                certificateLabel \<mapsto> ''cluster-operator-api''],
      Data = [''ca'' \<mapsto> [0x43, 0x41, 0x3D, 0x3D],
              ''crt'' \<mapsto> [0x43, 0x52, 0x54, 0x3D, 0x3D],
              ''key'' \<mapsto> [0x4B, 0x45, 0x59, 0x3D, 0x3D]]\<rparr>"

definition example_client :: "watcher \<Rightarrow> k8s_client" where
  "example_client ws = (\<lambda>namespace opts.
     if namespace = ''default'' \<and> LabelSelector opts =
          ''giantswarm.io/certificate=cluster-operator-api, giantswarm.io/cluster=c-abc12''
     then Inr ws else Inl (ClientError ''forbidden''))"

definition example_searcher :: "watcher \<Rightarrow> Searcher" where
  "example_searcher ws =
     \<lparr>k8sClient = example_client ws, logger = MicroLogger, watchTimeout = DefaultWatchTimeout\<rparr>"

section \<open>Properties of the label catalog\<close>

lemma Sprintf_name: "Sprintf ''%s-%s'' [a, b] = a @ ''-'' @ b"
  by simp

lemma label_keys_distinct:
  "distinct [certificateLabel, clusterIDLabel, legacyCertificateLabel, legacyClusterIDLabel]"
  by (simp add: certificateLabel_def clusterIDLabel_def legacyCertificateLabel_def
      legacyClusterIDLabel_def)

text \<open>
  Claim C8. \<^verbatim>\<open>K8sSecretName\<close> and \<^verbatim>\<open>K8sSecretLabels\<close> are functions of their two
  arguments alone. The name is the cluster ID, a hyphen and the certificate name. The
  label map binds the certificate label and the legacy certificate label to the
  certificate name, the cluster-ID label and the legacy cluster-ID label to the cluster
  ID, and binds nothing else.
\<close>

theorem K8sSecret_name_and_labels:
  "K8sSecretName clusterID cert = clusterID @ ''-'' @ cert
   \<and> K8sSecretLabels clusterID cert certificateLabel = Some cert
   \<and> K8sSecretLabels clusterID cert legacyCertificateLabel = Some cert
   \<and> K8sSecretLabels clusterID cert clusterIDLabel = Some clusterID
   \<and> K8sSecretLabels clusterID cert legacyClusterIDLabel = Some clusterID
   \<and> dom (K8sSecretLabels clusterID cert) =
       {certificateLabel, clusterIDLabel, legacyCertificateLabel, legacyClusterIDLabel}"
proof -
  have name: "K8sSecretName clusterID cert = clusterID @ ''-'' @ cert"
    unfolding K8sSecretName_def by (rule Sprintf_name)
  have labels:
    "K8sSecretLabels clusterID cert certificateLabel = Some cert"
    "K8sSecretLabels clusterID cert legacyCertificateLabel = Some cert"
    "K8sSecretLabels clusterID cert clusterIDLabel = Some clusterID"
    "K8sSecretLabels clusterID cert legacyClusterIDLabel = Some clusterID"
    using label_keys_distinct by (auto simp: K8sSecretLabels_def)
  have keys: "dom (K8sSecretLabels clusterID cert) =
       {certificateLabel, clusterIDLabel, legacyCertificateLabel, legacyClusterIDLabel}"
    by (auto simp: K8sSecretLabels_def)
  from name labels keys show ?thesis by simp
qed

section \<open>Properties of the searcher\<close>

subsection \<open>Auxiliary facts\<close>

lemma Sprintf_selector:
  "Sprintf ''%s=%s, %s=%s'' [a, b, c, d] = a @ ''='' @ b @ '', '' @ c @ ''='' @ d"
  by simp

lemma select_case_deleted [simp]:
  "select_case opts (Recv \<lparr>Type = Deleted, Object = obj\<rparr>) = None"
  by (simp add: select_case_def)

lemma select_case_timer [simp]:
  "select_case opts TimerFired =
     Some (Inl (Maskf timeoutError ''waiting secrets, selector = %q'' [Str (LabelSelector opts)]))"
  by (simp add: select_case_def)

lemma select_case_added [simp]:
  "select_case opts (Recv \<lparr>Type = Added, Object = SecretObject (Some secret)\<rparr>) = Some (Inr secret)"
  by (simp add: select_case_def)

lemma search_loop_deleted_prefix:
  "\<forall>w\<in>set ds. \<exists>obj. w = Recv \<lparr>Type = Deleted, Object = obj\<rparr> \<Longrightarrow>
   search_loop opts (ds @ ws) = search_loop opts ws"
  by (induction ds) auto

lemma search_watcher:
  assumes "k8sClient s SecretNamespace
     \<lparr>LabelSelector = certificateLabel @ ''='' @ cert @ '', '' @ clusterLabel @ ''='' @ clusterID\<rparr>
     = Inr ws"
  shows "fst (search s clusterLabel tls clusterID cert) =
     search_loop \<lparr>LabelSelector = certificateLabel @ ''='' @ cert @ '', '' @ clusterLabel @ ''='' @ clusterID\<rparr> ws"
  using assms unfolding search_def Watch_def Sprintf_selector
  by (simp add: Let_def split: option.splits)

lemma fill_ok:
  assumes "Labels secret clusterLabel = Some clusterID" "Labels secret certificateLabel = Some cert"
    "Data secret ''ca'' = Some ca" "Data secret ''crt'' = Some crt" "Data secret ''key'' = Some key"
  shows "fillTLSFromSecret clusterLabel tls secret clusterID cert =
     (\<lparr>CA = ca, Crt = crt, Key = key\<rparr>, None)"
  using assms by (simp add: fillTLSFromSecret_def index_label_def index_data_def)

lemma fill_error_cases:
  "fillTLSFromSecret clusterLabel tls secret cluster cert =
    (if index_label (Labels secret) clusterLabel \<noteq> cluster
     then (tls, Some (Maskf invalidSecretError ''expected cluster = %q, got %q''
                  [Str cluster, Str (index_label (Labels secret) clusterLabel)]))
     else if index_label (Labels secret) certificateLabel \<noteq> cert
     then (tls, Some (Maskf invalidSecretError ''expected certificate = %q, got %q''
                  [Str cert, Str (index_label (Labels secret) certificateLabel)]))
     else case Data secret ''ca'' of
       None \<Rightarrow> (tls\<lparr>CA := []\<rparr>, Some (Maskf invalidSecretError ''%q key missing'' [Str ''ca'']))
     | Some a \<Rightarrow> (case Data secret ''crt'' of
         None \<Rightarrow> (tls\<lparr>CA := a, Crt := []\<rparr>,
                   Some (Maskf invalidSecretError ''%q key missing'' [Str ''crt'']))
       | Some b \<Rightarrow> (case Data secret ''key'' of
           None \<Rightarrow> (tls\<lparr>CA := a, Crt := b, Key := []\<rparr>,
                     Some (Maskf invalidSecretError ''%q key missing'' [Str ''key'']))
         | Some c \<Rightarrow> (tls\<lparr>CA := a, Crt := b, Key := c\<rparr>, None))))"
  by (auto simp: fillTLSFromSecret_def index_data_def Let_def split: option.splits)

lemma example_watch:
  "k8sClient (example_searcher ws) SecretNamespace
     \<lparr>LabelSelector = certificateLabel @ ''='' @ ''cluster-operator-api'' @ '', '' @
        ''giantswarm.io/cluster'' @ ''='' @ ''c-abc12''\<rparr> = Inr ws"
  by (simp add: example_searcher_def example_client_def SecretNamespace_def certificateLabel_def)

lemma search_tls_irrelevant:
  "search s clusterLabel tls clusterID cert = search s clusterLabel tls' clusterID cert"
  by (simp add: search_def Watch_def)

lemma certificate_task_result:
  "certificate_task s clusterLabel clusterID (get, put, cert) b =
     (case fst (search s clusterLabel TLS_zero clusterID cert) of
        None \<Rightarrow> None
      | Some (Inl err) \<Rightarrow> Some (b, Some err)
      | Some (Inr secret) \<Rightarrow>
          (case fillTLSFromSecret clusterLabel (get b) secret clusterID cert of
             (tls, err) \<Rightarrow> Some (put tls b, err)))"
  using search_tls_irrelevant [of s clusterLabel "get b" clusterID cert TLS_zero]
  by (simp add: certificate_task_def Mask_def split: option.splits sum.splits prod.splits)

lemma three_seconds: "sint (3 * Second) = 3000000000"
  by (simp add: Second_def)

subsection \<open>Timeout\<close>

text \<open>
  Claim C1 says that a search in which no added event is delivered within the
  configured timeout, whatever the deleted events, fails with the timeout error. The
  loop starts a new timer at every turn, so a deleted event, which the loop means to
  ignore, starts the wait over. With a watch timeout of three seconds, a deleted event
  delivered after two seconds and a matching added event delivered after four, no
  added event is delivered within the three seconds and yet \<^verbatim>\<open>SearchTLS\<close> returns
  the TLS value of the secret with a nil error. With the added event after four
  seconds alone it returns the timeout error.
\<close>

theorem deleted_event_restarts_timeout:
  "SearchTLS (searcher_on
       (\<lambda>namespace opts. Inr
          [Deliver 2000000000 \<lparr>Type = Deleted, Object = SecretObject (Some example_secret)\<rparr>,
           Deliver 4000000000 \<lparr>Type = Added, Object = SecretObject (Some example_secret)\<rparr>])
       MicroLogger (3 * Second))
     ''giantswarm.io/cluster'' ''c-abc12'' ''cluster-operator-api''
   = Some (\<lparr>CA = [0x43, 0x41, 0x3D, 0x3D], Crt = [0x43, 0x52, 0x54, 0x3D, 0x3D],
            Key = [0x4B, 0x45, 0x59, 0x3D, 0x3D]\<rparr>, None)
   \<and> SearchTLS (searcher_on
       (\<lambda>namespace opts. Inr
          [Deliver 4000000000 \<lparr>Type = Added, Object = SecretObject (Some example_secret)\<rparr>])
       MicroLogger (3 * Second))
     ''giantswarm.io/cluster'' ''c-abc12'' ''cluster-operator-api''
   = Some (TLS_zero, Some (Maskf timeoutError ''waiting secrets, selector = %q''
       [Str ''giantswarm.io/certificate=cluster-operator-api, giantswarm.io/cluster=c-abc12'']))"
proof -
  let ?sel = "\<lparr>LabelSelector = certificateLabel @ ''='' @ ''cluster-operator-api'' @ '', '' @
        ''giantswarm.io/cluster'' @ ''='' @ ''c-abc12''\<rparr>"
  have outcomes:
    "select_outcomes (3 * Second) 0
       [Deliver 2000000000 \<lparr>Type = Deleted, Object = SecretObject (Some example_secret)\<rparr>,
        Deliver 4000000000 \<lparr>Type = Added, Object = SecretObject (Some example_secret)\<rparr>]
     = [Recv \<lparr>Type = Deleted, Object = SecretObject (Some example_secret)\<rparr>,
        Recv \<lparr>Type = Added, Object = SecretObject (Some example_secret)\<rparr>, TimerFired]"
    "select_outcomes (3 * Second) 0
       [Deliver 4000000000 \<lparr>Type = Added, Object = SecretObject (Some example_secret)\<rparr>]
     = [TimerFired]"
    unfolding select_outcomes.simps three_seconds by simp_all
  have s: "fst (search (searcher_on (\<lambda>namespace opts. Inr ds) MicroLogger (3 * Second))
      ''giantswarm.io/cluster'' tls ''c-abc12'' ''cluster-operator-api'') =
      search_loop ?sel (select_outcomes (3 * Second) 0 ds)" for ds tls
    by (rule search_watcher) (simp add: searcher_on_def)
  have fill: "fillTLSFromSecret ''giantswarm.io/cluster'' TLS_zero example_secret
      ''c-abc12'' ''cluster-operator-api''
     = (\<lparr>CA = [0x43, 0x41, 0x3D, 0x3D], Crt = [0x43, 0x52, 0x54, 0x3D, 0x3D],
         Key = [0x4B, 0x45, 0x59, 0x3D, 0x3D]\<rparr>, None)"
    by (simp add: fill_error_cases index_label_def example_secret_def
        certificateLabel_def TLS_zero_def)
  have first: "SearchTLS (searcher_on
       (\<lambda>namespace opts. Inr
          [Deliver 2000000000 \<lparr>Type = Deleted, Object = SecretObject (Some example_secret)\<rparr>,
           Deliver 4000000000 \<lparr>Type = Added, Object = SecretObject (Some example_secret)\<rparr>])
       MicroLogger (3 * Second))
     ''giantswarm.io/cluster'' ''c-abc12'' ''cluster-operator-api''
   = Some (\<lparr>CA = [0x43, 0x41, 0x3D, 0x3D], Crt = [0x43, 0x52, 0x54, 0x3D, 0x3D],
            Key = [0x4B, 0x45, 0x59, 0x3D, 0x3D]\<rparr>, None)"
    unfolding SearchTLS_def s outcomes by (simp add: fill)
  have second: "SearchTLS (searcher_on
       (\<lambda>namespace opts. Inr
          [Deliver 4000000000 \<lparr>Type = Added, Object = SecretObject (Some example_secret)\<rparr>])
       MicroLogger (3 * Second))
     ''giantswarm.io/cluster'' ''c-abc12'' ''cluster-operator-api''
   = Some (TLS_zero, Some (Maskf timeoutError ''waiting secrets, selector = %q''
       [Str ''giantswarm.io/certificate=cluster-operator-api, giantswarm.io/cluster=c-abc12'']))"
    unfolding SearchTLS_def s outcomes by (simp add: Mask_def certificateLabel_def)
  from first second show ?thesis by (rule conjI)
qed

subsection \<open>Decoding a matching secret\<close>

text \<open>
  Claim C3. When the watch delivers, after deleted events only, an added event whose
  secret carries the requested cluster ID under the cluster label and the requested
  certificate name under the certificate label, and has the data keys \<^verbatim>\<open>ca\<close>,
  \<^verbatim>\<open>crt\<close> and \<^verbatim>\<open>key\<close>, then \<^verbatim>\<open>SearchTLS\<close> returns with a nil error and a TLS
  value whose fields CA, Crt and Key are the values of these three keys.
\<close>

theorem SearchTLS_returns_secret_data:
  assumes watch: "k8sClient s SecretNamespace
     \<lparr>LabelSelector = certificateLabel @ ''='' @ cert @ '', '' @ clusterLabel @ ''='' @ clusterID\<rparr>
     = Inr (ds @ Recv \<lparr>Type = Added, Object = SecretObject (Some secret)\<rparr> # rest)"
    and deleted: "\<forall>w\<in>set ds. \<exists>obj. w = Recv \<lparr>Type = Deleted, Object = obj\<rparr>"
    and labels: "Labels secret clusterLabel = Some clusterID"
      "Labels secret certificateLabel = Some cert"
    and data: "Data secret ''ca'' = Some ca" "Data secret ''crt'' = Some crt"
      "Data secret ''key'' = Some key"
  shows "SearchTLS s clusterLabel clusterID cert = Some (\<lparr>CA = ca, Crt = crt, Key = key\<rparr>, None)"
proof -
  have "fst (search s clusterLabel TLS_zero clusterID cert) = Some (Inr secret)"
    using search_watcher [OF watch] deleted by (simp add: search_loop_deleted_prefix)
  then show ?thesis
    by (simp add: SearchTLS_def fill_ok [OF labels data])
qed

theorem SearchTLS_returns_secret_data_witness:
  "SearchTLS (example_searcher
      [Recv \<lparr>Type = Deleted, Object = NilObject\<rparr>,
       Recv \<lparr>Type = Added, Object = SecretObject (Some example_secret)\<rparr>,
       TimerFired])
     ''giantswarm.io/cluster'' ''c-abc12'' ''cluster-operator-api''
   = Some (\<lparr>CA = [0x43, 0x41, 0x3D, 0x3D], Crt = [0x43, 0x52, 0x54, 0x3D, 0x3D],
            Key = [0x4B, 0x45, 0x59, 0x3D, 0x3D]\<rparr>, None)"
proof -
  have watch: "k8sClient (example_searcher
      ([Recv \<lparr>Type = Deleted, Object = NilObject\<rparr>] @
       Recv \<lparr>Type = Added, Object = SecretObject (Some example_secret)\<rparr> # [TimerFired]))
     SecretNamespace
     \<lparr>LabelSelector = certificateLabel @ ''='' @ ''cluster-operator-api'' @ '', '' @
        ''giantswarm.io/cluster'' @ ''='' @ ''c-abc12''\<rparr>
     = Inr ([Recv \<lparr>Type = Deleted, Object = NilObject\<rparr>] @
       Recv \<lparr>Type = Added, Object = SecretObject (Some example_secret)\<rparr> # [TimerFired])"
    by (rule example_watch)
  have deleted: "\<forall>w\<in>set [Recv \<lparr>Type = Deleted, Object = NilObject\<rparr>].
      \<exists>obj. w = Recv \<lparr>Type = Deleted, Object = obj\<rparr>"
    by simp
  have labels: "Labels example_secret ''giantswarm.io/cluster'' = Some ''c-abc12''"
    "Labels example_secret certificateLabel = Some ''cluster-operator-api''"
    by (simp_all add: example_secret_def certificateLabel_def)
  have data: "Data example_secret ''ca'' = Some [0x43, 0x41, 0x3D, 0x3D]"
    "Data example_secret ''crt'' = Some [0x43, 0x52, 0x54, 0x3D, 0x3D]"
    "Data example_secret ''key'' = Some [0x4B, 0x45, 0x59, 0x3D, 0x3D]"
    by (simp_all add: example_secret_def)
  from SearchTLS_returns_secret_data [OF watch deleted labels data] show ?thesis by simp
qed
subsection \<open>Rejecting an invalid secret\<close>

text \<open>
  Claim C4. When the secret that the watch delivers has a cluster label or a
  certificate label that differs from the request (an absent label reads as the empty
  string), or lacks one of the data keys \<^verbatim>\<open>ca\<close>, \<^verbatim>\<open>crt\<close>, \<^verbatim>\<open>key\<close>, then
  \<^verbatim>\<open>fillTLSFromSecret\<close> returns an error of the invalid-secret kind and \<^verbatim>\<open>SearchTLS\<close>
  returns the zero TLS value with that error. When both labels match, the error names
  a data key that is absent from the secret.
\<close>

theorem invalid_secret_rejected:
  assumes watch: "k8sClient s SecretNamespace
     \<lparr>LabelSelector = certificateLabel @ ''='' @ cert @ '', '' @ clusterLabel @ ''='' @ clusterID\<rparr>
     = Inr (ds @ Recv \<lparr>Type = Added, Object = SecretObject (Some secret)\<rparr> # rest)"
    and deleted: "\<forall>w\<in>set ds. \<exists>obj. w = Recv \<lparr>Type = Deleted, Object = obj\<rparr>"
    and defect: "index_label (Labels secret) clusterLabel \<noteq> clusterID
       \<or> index_label (Labels secret) certificateLabel \<noteq> cert
       \<or> Data secret ''ca'' = None \<or> Data secret ''crt'' = None \<or> Data secret ''key'' = None"
  shows "\<exists>e. snd (fillTLSFromSecret clusterLabel tls secret clusterID cert) = Some e
     \<and> SearchTLS s clusterLabel clusterID cert = Some (TLS_zero, Some e)
     \<and> kind e = Some invalidSecretError
     \<and> (index_label (Labels secret) clusterLabel = clusterID
          \<and> index_label (Labels secret) certificateLabel = cert
        \<longrightarrow> (\<exists>k. k \<in> set [''ca'', ''crt'', ''key''] \<and> Data secret k = None
               \<and> format e = ''%q key missing'' \<and> operands e = [Str k]))"
proof -
  have found: "fst (search s clusterLabel TLS_zero clusterID cert) = Some (Inr secret)"
    using search_watcher [OF watch] deleted by (simp add: search_loop_deleted_prefix)
  have ex: "\<exists>e. snd (fillTLSFromSecret clusterLabel tls secret clusterID cert) = Some e
     \<and> kind e = Some invalidSecretError
     \<and> (index_label (Labels secret) clusterLabel = clusterID
          \<and> index_label (Labels secret) certificateLabel = cert
        \<longrightarrow> (\<exists>k. k \<in> set [''ca'', ''crt'', ''key''] \<and> Data secret k = None
               \<and> format e = ''%q key missing'' \<and> operands e = [Str k]))"
  proof (cases "index_label (Labels secret) clusterLabel = clusterID
          \<and> index_label (Labels secret) certificateLabel = cert")
    case False
    then show ?thesis by (auto simp: fill_error_cases)
  next
    case labels: True
    show ?thesis
    proof (cases "Data secret ''ca''")
      case None
      with labels show ?thesis by (simp add: fill_error_cases)
    next
      case ca: (Some a)
      show ?thesis
      proof (cases "Data secret ''crt''")
        case None
        with labels ca show ?thesis by (simp add: fill_error_cases)
      next
        case crt: (Some b)
        from defect labels ca crt have "Data secret ''key'' = None" by simp
        with labels ca crt show ?thesis by (simp add: fill_error_cases)
      qed
    qed
  qed
  then obtain e where e: "snd (fillTLSFromSecret clusterLabel tls secret clusterID cert) = Some e"
      "kind e = Some invalidSecretError"
      "index_label (Labels secret) clusterLabel = clusterID
          \<and> index_label (Labels secret) certificateLabel = cert
        \<longrightarrow> (\<exists>k. k \<in> set [''ca'', ''crt'', ''key''] \<and> Data secret k = None
               \<and> format e = ''%q key missing'' \<and> operands e = [Str k])"
    by blast
  have indep: "snd (fillTLSFromSecret clusterLabel TLS_zero secret clusterID cert) =
      snd (fillTLSFromSecret clusterLabel tls secret clusterID cert)"
    by (simp add: fill_error_cases split: option.splits)
  have "SearchTLS s clusterLabel clusterID cert = Some (TLS_zero, Some e)"
    using found e(1) indep
    by (auto simp: SearchTLS_def Mask_def split: prod.splits option.splits)
  with e show ?thesis by blast
qed

theorem invalid_secret_rejected_witness:
  "(\<exists>e. SearchTLS (example_searcher
        [Recv \<lparr>Type = Added, Object = SecretObject (Some (example_secret
           \<lparr>Data := (Data example_secret)(''crt'' := None)\<rparr>))\<rparr>])
       ''giantswarm.io/cluster'' ''c-abc12'' ''cluster-operator-api'' = Some (TLS_zero, Some e)
      \<and> kind e = Some invalidSecretError \<and> operands e = [Str ''crt''])
   \<and> (\<exists>e. SearchTLS (example_searcher
        [Recv \<lparr>Type = Added, Object = SecretObject (Some (example_secret
           \<lparr>Labels := (Labels example_secret)(''giantswarm.io/cluster'' \<mapsto> ''c-xyz99'')\<rparr>))\<rparr>])
       ''giantswarm.io/cluster'' ''c-abc12'' ''cluster-operator-api'' = Some (TLS_zero, Some e)
      \<and> kind e = Some invalidSecretError)"
proof -
  let ?nocrt = "example_secret\<lparr>Data := (Data example_secret)(''crt'' := None)\<rparr>"
  let ?other = "example_secret
     \<lparr>Labels := (Labels example_secret)(''giantswarm.io/cluster'' \<mapsto> ''c-xyz99'')\<rparr>"
  have nil: "\<forall>w\<in>set []. \<exists>obj. w = Recv \<lparr>Type = Deleted, Object = obj\<rparr>"
    by simp
  have watch: "k8sClient (example_searcher
        ([] @ Recv \<lparr>Type = Added, Object = SecretObject (Some secret)\<rparr> # []))
      SecretNamespace
      \<lparr>LabelSelector = certificateLabel @ ''='' @ ''cluster-operator-api'' @ '', '' @
        ''giantswarm.io/cluster'' @ ''='' @ ''c-abc12''\<rparr>
      = Inr ([] @ Recv \<lparr>Type = Added, Object = SecretObject (Some secret)\<rparr> # [])"
    for secret
    by (rule example_watch)
  have d1: "index_label (Labels ?nocrt) ''giantswarm.io/cluster'' \<noteq> ''c-abc12''
       \<or> index_label (Labels ?nocrt) certificateLabel \<noteq> ''cluster-operator-api''
       \<or> Data ?nocrt ''ca'' = None \<or> Data ?nocrt ''crt'' = None \<or> Data ?nocrt ''key'' = None"
    by simp
  have l1: "index_label (Labels ?nocrt) ''giantswarm.io/cluster'' = ''c-abc12''
       \<and> index_label (Labels ?nocrt) certificateLabel = ''cluster-operator-api''"
    by (simp add: index_label_def example_secret_def certificateLabel_def)
  have k1: "Data ?nocrt ''ca'' \<noteq> None" "Data ?nocrt ''key'' \<noteq> None"
    by (simp_all add: example_secret_def)
  have d2: "index_label (Labels ?other) ''giantswarm.io/cluster'' \<noteq> ''c-abc12''
       \<or> index_label (Labels ?other) certificateLabel \<noteq> ''cluster-operator-api''
       \<or> Data ?other ''ca'' = None \<or> Data ?other ''crt'' = None \<or> Data ?other ''key'' = None"
    by (simp add: index_label_def)
  have first: "\<exists>e. SearchTLS (example_searcher
        [Recv \<lparr>Type = Added, Object = SecretObject (Some ?nocrt)\<rparr>])
       ''giantswarm.io/cluster'' ''c-abc12'' ''cluster-operator-api'' = Some (TLS_zero, Some e)
      \<and> kind e = Some invalidSecretError \<and> operands e = [Str ''crt'']"
    using invalid_secret_rejected [OF watch nil d1, of TLS_zero] l1 k1 by auto
  have second: "\<exists>e. SearchTLS (example_searcher
        [Recv \<lparr>Type = Added, Object = SecretObject (Some ?other)\<rparr>])
       ''giantswarm.io/cluster'' ''c-abc12'' ''cluster-operator-api'' = Some (TLS_zero, Some e)
      \<and> kind e = Some invalidSecretError"
    using invalid_secret_rejected [OF watch nil d2, of TLS_zero] by auto
  from first second show ?thesis by blast
qed

subsection \<open>Order of the validation\<close>

text \<open>
  Claim C10. \<^verbatim>\<open>fillTLSFromSecret\<close> checks the cluster label, then the certificate
  label, then the data keys \<^verbatim>\<open>ca\<close>, \<^verbatim>\<open>crt\<close>, \<^verbatim>\<open>key\<close>, and returns at the first
  check that fails, whatever the later checks would find: the error is the one of
  that check, and the TLS value holds what the earlier reads of data keys assigned
  and is unchanged in the fields of the later ones.
\<close>

theorem validation_order:
  "(index_label (Labels secret) clusterLabel \<noteq> cluster \<longrightarrow>
      fillTLSFromSecret clusterLabel tls secret cluster cert =
        (tls, Some (Maskf invalidSecretError ''expected cluster = %q, got %q''
                  [Str cluster, Str (index_label (Labels secret) clusterLabel)])))
   \<and> (index_label (Labels secret) clusterLabel = cluster
      \<and> index_label (Labels secret) certificateLabel \<noteq> cert \<longrightarrow>
      fillTLSFromSecret clusterLabel tls secret cluster cert =
        (tls, Some (Maskf invalidSecretError ''expected certificate = %q, got %q''
                  [Str cert, Str (index_label (Labels secret) certificateLabel)])))
   \<and> (index_label (Labels secret) clusterLabel = cluster
      \<and> index_label (Labels secret) certificateLabel = cert
      \<and> Data secret ''ca'' = None \<longrightarrow>
      fillTLSFromSecret clusterLabel tls secret cluster cert =
        (tls\<lparr>CA := []\<rparr>, Some (Maskf invalidSecretError ''%q key missing'' [Str ''ca''])))
   \<and> (index_label (Labels secret) clusterLabel = cluster
      \<and> index_label (Labels secret) certificateLabel = cert
      \<and> Data secret ''ca'' = Some a \<and> Data secret ''crt'' = None \<longrightarrow>
      fillTLSFromSecret clusterLabel tls secret cluster cert =
        (tls\<lparr>CA := a, Crt := []\<rparr>,
         Some (Maskf invalidSecretError ''%q key missing'' [Str ''crt''])))
   \<and> (index_label (Labels secret) clusterLabel = cluster
      \<and> index_label (Labels secret) certificateLabel = cert
      \<and> Data secret ''ca'' = Some a \<and> Data secret ''crt'' = Some b
      \<and> Data secret ''key'' = None \<longrightarrow>
      fillTLSFromSecret clusterLabel tls secret cluster cert =
        (tls\<lparr>CA := a, Crt := b, Key := []\<rparr>,
         Some (Maskf invalidSecretError ''%q key missing'' [Str ''key''])))"
  by (simp add: fill_error_cases)

theorem validation_order_witness:
  "index_label (Labels \<lparr>Labels = [certificateLabel \<mapsto> ''etcd''], Data = Map.empty\<rparr>)
       ''giantswarm.io/cluster'' \<noteq> ''c-abc12''
   \<and> fillTLSFromSecret ''giantswarm.io/cluster'' TLS_zero
        \<lparr>Labels = [certificateLabel \<mapsto> ''etcd''], Data = Map.empty\<rparr> ''c-abc12'' ''api''
      = (TLS_zero, Some (Maskf invalidSecretError ''expected cluster = %q, got %q''
           [Str ''c-abc12'', Str '''']))
   \<and> fillTLSFromSecret ''giantswarm.io/cluster'' TLS_zero
        (example_secret\<lparr>Data := [''ca'' \<mapsto> [1, 2], ''key'' \<mapsto> [3]]\<rparr>)
        ''c-abc12'' ''cluster-operator-api''
      = (\<lparr>CA = [1, 2], Crt = [], Key = []\<rparr>,
         Some (Maskf invalidSecretError ''%q key missing'' [Str ''crt'']))"
proof -
  let ?bad = "\<lparr>Labels = [certificateLabel \<mapsto> ''etcd''], Data = Map.empty\<rparr>"
  let ?nocrt = "example_secret\<lparr>Data := [''ca'' \<mapsto> [1, 2], ''key'' \<mapsto> [3]]\<rparr>"
  have h: "index_label (Labels ?bad) ''giantswarm.io/cluster'' \<noteq> ''c-abc12''"
    by (simp add: index_label_def certificateLabel_def)
  have v: "index_label (Labels ?bad) ''giantswarm.io/cluster'' = ''''"
    by (simp add: index_label_def certificateLabel_def)
  have g: "index_label (Labels ?nocrt) ''giantswarm.io/cluster'' = ''c-abc12''
      \<and> index_label (Labels ?nocrt) certificateLabel = ''cluster-operator-api''
      \<and> Data ?nocrt ''ca'' = Some [1, 2] \<and> Data ?nocrt ''crt'' = None"
    by (simp add: index_label_def example_secret_def certificateLabel_def)
  from validation_order [of ?bad "''giantswarm.io/cluster''" "''c-abc12''" TLS_zero "''api''"]
    validation_order [of ?nocrt "''giantswarm.io/cluster''" "''c-abc12''" TLS_zero
      "''cluster-operator-api''" "[1, 2]"]
    h v g
  show ?thesis by (simp add: TLS_zero_def)
qed

subsection \<open>Kinds of the failures\<close>

text \<open>
  Claim C2, as stated, fails: a watch channel found closed and an error event both
  make the search fail with the kind \<^verbatim>\<open>executionFailedError\<close>. In the example
  scenario the two failures are evaluated and their kinds are equal.
\<close>

theorem failure_kinds_counterexample:
  "SearchTLS (example_searcher [Closed])
       ''giantswarm.io/cluster'' ''c-abc12'' ''cluster-operator-api''
     = Some (TLS_zero, Some (Maskf executionFailedError
         ''watching secrets, selector = %q: unexpected closed channel''
         [Str ''giantswarm.io/certificate=cluster-operator-api, giantswarm.io/cluster=c-abc12'']))
   \<and> SearchTLS (example_searcher [Recv \<lparr>Type = Error, Object = StatusObject ''gone''\<rparr>])
       ''giantswarm.io/cluster'' ''c-abc12'' ''cluster-operator-api''
     = Some (TLS_zero, Some (Maskf executionFailedError
         ''watching secrets, selector = %q: %v''
         [Str ''giantswarm.io/certificate=cluster-operator-api, giantswarm.io/cluster=c-abc12'',
          Obj (StatusObject ''gone'')]))
   \<and> kind (Maskf executionFailedError
         ''watching secrets, selector = %q: unexpected closed channel''
         [Str ''giantswarm.io/certificate=cluster-operator-api, giantswarm.io/cluster=c-abc12''])
     = kind (Maskf executionFailedError
         ''watching secrets, selector = %q: %v''
         [Str ''giantswarm.io/certificate=cluster-operator-api, giantswarm.io/cluster=c-abc12'',
          Obj (StatusObject ''gone'')])"
proof -
  have s: "fst (search (example_searcher ws) ''giantswarm.io/cluster'' tls ''c-abc12''
      ''cluster-operator-api'') =
      search_loop \<lparr>LabelSelector = certificateLabel @ ''='' @ ''cluster-operator-api'' @ '', '' @
        ''giantswarm.io/cluster'' @ ''='' @ ''c-abc12''\<rparr> ws" for ws tls
    by (rule search_watcher [OF example_watch])
  show ?thesis
    by (simp add: SearchTLS_def s select_case_def Mask_def certificateLabel_def)
qed

text \<open>
  Claim C2, amended. The three failure causes produce two error kinds. A closed watch
  channel and an error event from the watch both fail with the execution-failed kind.
  The expiry of the timer fails with the timeout kind, which is different from the
  kind of the other two.
\<close>

theorem failure_kinds:
  "search_loop opts (Closed # ws) =
     Some (Inl (Maskf executionFailedError
       ''watching secrets, selector = %q: unexpected closed channel''
       [Str (LabelSelector opts)]))
   \<and> search_loop opts (Recv \<lparr>Type = Error, Object = obj\<rparr> # ws) =
     Some (Inl (Maskf executionFailedError ''watching secrets, selector = %q: %v''
       [Str (LabelSelector opts), Obj obj]))
   \<and> search_loop opts (TimerFired # ws) =
     Some (Inl (Maskf timeoutError ''waiting secrets, selector = %q''
       [Str (LabelSelector opts)]))
   \<and> kind (Maskf timeoutError ''waiting secrets, selector = %q'' [Str (LabelSelector opts)])
       \<noteq> kind (Maskf executionFailedError
             ''watching secrets, selector = %q: unexpected closed channel''
             [Str (LabelSelector opts)])
   \<and> kind (Maskf timeoutError ''waiting secrets, selector = %q'' [Str (LabelSelector opts)])
       \<noteq> kind (Maskf executionFailedError ''watching secrets, selector = %q: %v''
             [Str (LabelSelector opts), Obj obj])"
  by (simp add: select_case_def)

subsection \<open>Deleted events\<close>

text \<open>
  Claim C6. On a deleted event the turn of the loop returns nothing, neither a secret
  nor an error, and the loop selects again: a watcher that has delivered one deleted
  event only leaves the search waiting, and a deleted event ahead of any sequence of
  outcomes leaves the result of the search as it is without the event.
\<close>

theorem deleted_event_ignored:
  "select_case opts (Recv \<lparr>Type = Deleted, Object = obj\<rparr>) = None
   \<and> search_loop opts [Recv \<lparr>Type = Deleted, Object = obj\<rparr>] = None
   \<and> search_loop opts (Recv \<lparr>Type = Deleted, Object = obj\<rparr> # ws) = search_loop opts ws
   \<and> fst (search (s\<lparr>k8sClient := \<lambda>namespace opts.
             Inr (Recv \<lparr>Type = Deleted, Object = obj\<rparr> # ws)\<rparr>) clusterLabel tls clusterID cert)
     = fst (search (s\<lparr>k8sClient := \<lambda>namespace opts. Inr ws\<rparr>) clusterLabel tls clusterID cert)"
  by (simp add: search_def Watch_def Let_def split: option.splits)

subsection \<open>The selector of the watch\<close>

text \<open>
  Claim C7. With the cluster-ID label of the current scheme as its cluster label,
  \<^verbatim>\<open>search\<close> calls the client once, to watch the namespace \<^verbatim>\<open>default\<close> with the
  label selector made of two equality clauses joined by a comma and a space: the
  certificate label \<^verbatim>\<open>giantswarm.io/certificate\<close> with the requested certificate
  name, and the cluster-ID label \<^verbatim>\<open>giantswarm.io/cluster-id\<close> with the requested
  cluster ID. What the search returns is decided by the answer of the client to that
  very call: its error, or the result of the loop over the watcher it opens.
\<close>

theorem search_watch_selector:
  "fst (search s clusterLabel_spec tls clusterID cert) =
     (case k8sClient s ''default''
             \<lparr>LabelSelector = ''giantswarm.io/certificate'' @ ''='' @ cert @ '', '' @
                ''giantswarm.io/cluster-id'' @ ''='' @ clusterID\<rparr> of
        Inl err \<Rightarrow> Some (Inl err)
      | Inr watcher \<Rightarrow>
          search_loop
            \<lparr>LabelSelector = ''giantswarm.io/certificate'' @ ''='' @ cert @ '', '' @
               ''giantswarm.io/cluster-id'' @ ''='' @ clusterID\<rparr> watcher)
   \<and> filter (\<lambda>c. c \<noteq> StopCall) (snd (search s clusterLabel_spec tls clusterID cert)) =
     [WatchCall ''default''
        \<lparr>LabelSelector = ''giantswarm.io/certificate'' @ ''='' @ cert @ '', '' @
           ''giantswarm.io/cluster-id'' @ ''='' @ clusterID\<rparr>]"
  unfolding search_def Watch_def Sprintf_selector
  by (simp add: Let_def SecretNamespace_def certificateLabel_def clusterLabel_spec_def
      clusterIDLabel_def Mask_def split: sum.splits option.splits)

theorem search_watch_selector_witness:
  "fst (search
      \<lparr>k8sClient = (\<lambda>namespace opts.
          if namespace = ''default'' \<and> LabelSelector opts =
               ''giantswarm.io/certificate=api, giantswarm.io/cluster-id=c-abc12''
          then Inr [Recv \<lparr>Type = Added, Object = SecretObject (Some example_secret)\<rparr>]
          else Inl (ClientError ''forbidden'')),
       logger = MicroLogger, watchTimeout = DefaultWatchTimeout\<rparr>
      clusterLabel_spec TLS_zero ''c-abc12'' ''api'') = Some (Inr example_secret)"
  using search_watch_selector [of
      "\<lparr>k8sClient = (\<lambda>namespace opts.
          if namespace = ''default'' \<and> LabelSelector opts =
               ''giantswarm.io/certificate=api, giantswarm.io/cluster-id=c-abc12''
          then Inr [Recv \<lparr>Type = Added, Object = SecretObject (Some example_secret)\<rparr>]
          else Inl (ClientError ''forbidden'')),
       logger = MicroLogger, watchTimeout = DefaultWatchTimeout\<rparr>"
      TLS_zero "''c-abc12''" "''api''"]
  by simp

subsection \<open>Construction\<close>

text \<open>
  Claim C9. \<^verbatim>\<open>NewSearcher\<close> fails with an error of the invalid-configuration kind
  when the client or the logger of the configuration is nil. With both present it
  returns a searcher holding them, whose watch timeout is the configured one unless
  that is zero, in which case it is \<^verbatim>\<open>DefaultWatchTimeout\<close>, three seconds
  (3000000000 nanoseconds).
\<close>

theorem NewSearcher_config:
  "(K8sClient config = None \<or> Logger config = None \<longrightarrow>
      (\<exists>e. NewSearcher config = Inl e \<and> kind e = Some invalidConfigError))
   \<and> (K8sClient config = Some client \<and> Logger config = Some lg \<longrightarrow>
      NewSearcher config =
        Inr \<lparr>k8sClient = client, logger = lg,
             watchTimeout = (if WatchTimeout config = 0 then DefaultWatchTimeout
                             else WatchTimeout config)\<rparr>)
   \<and> unat DefaultWatchTimeout = 3 * 1000000000"
  by (auto simp: NewSearcher_def DefaultWatchTimeout_def Second_def split: option.splits)

theorem NewSearcher_config_witness:
  "(\<exists>e. NewSearcher \<lparr>K8sClient = None, Logger = Some MicroLogger, WatchTimeout = 0\<rparr> = Inl e
        \<and> kind e = Some invalidConfigError)
   \<and> (\<exists>e. NewSearcher \<lparr>K8sClient = Some (example_client []), Logger = None, WatchTimeout = 0\<rparr>
          = Inl e \<and> kind e = Some invalidConfigError)
   \<and> NewSearcher \<lparr>K8sClient = Some (example_client []), Logger = Some MicroLogger,
        WatchTimeout = 0\<rparr>
      = Inr \<lparr>k8sClient = example_client [], logger = MicroLogger, watchTimeout = 3000000000\<rparr>
   \<and> NewSearcher \<lparr>K8sClient = Some (example_client []), Logger = Some MicroLogger,
        WatchTimeout = 5000000000\<rparr>
      = Inr \<lparr>k8sClient = example_client [], logger = MicroLogger, watchTimeout = 5000000000\<rparr>"
  using NewSearcher_config [of "\<lparr>K8sClient = None, Logger = Some MicroLogger, WatchTimeout = 0\<rparr>"]
    NewSearcher_config [of "\<lparr>K8sClient = Some (example_client []), Logger = None,
      WatchTimeout = 0\<rparr>"]
    NewSearcher_config [of "\<lparr>K8sClient = Some (example_client []), Logger = Some MicroLogger,
        WatchTimeout = 0\<rparr>" "example_client []" MicroLogger]
    NewSearcher_config [of "\<lparr>K8sClient = Some (example_client []), Logger = Some MicroLogger,
        WatchTimeout = 5000000000\<rparr>" "example_client []" MicroLogger]
  by (simp add: DefaultWatchTimeout_def Second_def)

subsection \<open>Bundle searches\<close>

text \<open>
  Claim C5. Each of the four bundle searches has one member, and its result is
  decided by the single-kind search of that member: while that search has not
  returned neither has the bundle search; when it succeeds the bundle search returns
  the struct whose TLS field is the decoded value, with a nil error; when it fails
  the bundle search returns the zero value of the struct with the very error of the
  member.
\<close>

theorem bundle_all_or_nothing:
  "SearchAppOperator s clusterLabel AppOperatorAPICert clusterID =
     (case SearchTLS s clusterLabel clusterID AppOperatorAPICert of
        None \<Rightarrow> None
      | Some (tls, None) \<Rightarrow> Some (\<lparr>AppOperator.APIServer = tls\<rparr>, None)
      | Some (tls, Some err) \<Rightarrow> Some (AppOperator_zero, Some err))
   \<and> SearchClusterOperator s clusterLabel clusterID =
     (case SearchTLS s clusterLabel clusterID ClusterOperatorAPICert of
        None \<Rightarrow> None
      | Some (tls, None) \<Rightarrow> Some (\<lparr>ClusterOperator.APIServer = tls\<rparr>, None)
      | Some (tls, Some err) \<Rightarrow> Some (ClusterOperator_zero, Some err))
   \<and> SearchDraining s clusterLabel clusterID =
     (case SearchTLS s clusterLabel clusterID NodeOperatorCert of
        None \<Rightarrow> None
      | Some (tls, None) \<Rightarrow> Some (\<lparr>NodeOperator = tls\<rparr>, None)
      | Some (tls, Some err) \<Rightarrow> Some (Draining_zero, Some err))
   \<and> SearchMonitoring s clusterLabel clusterID =
     (case SearchTLS s clusterLabel clusterID PrometheusCert of
        None \<Rightarrow> None
      | Some (tls, None) \<Rightarrow> Some (\<lparr>Prometheus = tls\<rparr>, None)
      | Some (tls, Some err) \<Rightarrow> Some (Monitoring_zero, Some err))"
proof -
  have app: "SearchAppOperator s clusterLabel AppOperatorAPICert clusterID =
     (case SearchTLS s clusterLabel clusterID AppOperatorAPICert of
        None \<Rightarrow> None
      | Some (tls, None) \<Rightarrow> Some (\<lparr>AppOperator.APIServer = tls\<rparr>, None)
      | Some (tls, Some err) \<Rightarrow> Some (AppOperator_zero, Some err))"
    by (simp add: SearchAppOperator_def SearchTLS_def certificate_task_result Mask_def AppOperator_zero_def
        split: option.splits sum.splits prod.splits)
  have cluster: "SearchClusterOperator s clusterLabel clusterID =
     (case SearchTLS s clusterLabel clusterID ClusterOperatorAPICert of
        None \<Rightarrow> None
      | Some (tls, None) \<Rightarrow> Some (\<lparr>ClusterOperator.APIServer = tls\<rparr>, None)
      | Some (tls, Some err) \<Rightarrow> Some (ClusterOperator_zero, Some err))"
    by (simp add: SearchClusterOperator_def SearchTLS_def certificate_task_result Mask_def
        ClusterOperator_zero_def split: option.splits sum.splits prod.splits)
  have draining: "SearchDraining s clusterLabel clusterID =
     (case SearchTLS s clusterLabel clusterID NodeOperatorCert of
        None \<Rightarrow> None
      | Some (tls, None) \<Rightarrow> Some (\<lparr>NodeOperator = tls\<rparr>, None)
      | Some (tls, Some err) \<Rightarrow> Some (Draining_zero, Some err))"
    by (simp add: SearchDraining_def SearchTLS_def certificate_task_result Mask_def Draining_zero_def
        split: option.splits sum.splits prod.splits)
  have monitoring: "SearchMonitoring s clusterLabel clusterID =
     (case SearchTLS s clusterLabel clusterID PrometheusCert of
        None \<Rightarrow> None
      | Some (tls, None) \<Rightarrow> Some (\<lparr>Prometheus = tls\<rparr>, None)
      | Some (tls, Some err) \<Rightarrow> Some (Monitoring_zero, Some err))"
    by (simp add: SearchMonitoring_def SearchTLS_def certificate_task_result Mask_def Monitoring_zero_def
        split: option.splits sum.splits prod.splits)
  from app cluster draining monitoring show ?thesis by (intro conjI)
qed

theorem bundle_all_or_nothing_witness:
  "SearchClusterOperator (example_searcher
       [Recv \<lparr>Type = Added, Object = SecretObject (Some example_secret)\<rparr>])
     ''giantswarm.io/cluster'' ''c-abc12''
   = Some (\<lparr>ClusterOperator.APIServer =
        \<lparr>CA = [0x43, 0x41, 0x3D, 0x3D], Crt = [0x43, 0x52, 0x54, 0x3D, 0x3D],
         Key = [0x4B, 0x45, 0x59, 0x3D, 0x3D]\<rparr>\<rparr>, None)
   \<and> SearchClusterOperator (example_searcher
       [Recv \<lparr>Type = Added, Object = SecretObject (Some (example_secret
           \<lparr>Data := (Data example_secret)(''key'' := None)\<rparr>))\<rparr>])
     ''giantswarm.io/cluster'' ''c-abc12''
   = Some (ClusterOperator_zero,
       Some (Maskf invalidSecretError ''%q key missing'' [Str ''key'']))"
proof -
  have s: "fst (search (example_searcher ws) ''giantswarm.io/cluster'' tls ''c-abc12''
      ClusterOperatorAPICert) =
      search_loop \<lparr>LabelSelector = certificateLabel @ ''='' @ ClusterOperatorAPICert @ '', '' @
        ''giantswarm.io/cluster'' @ ''='' @ ''c-abc12''\<rparr> ws" for ws tls
    unfolding ClusterOperatorAPICert_def by (rule search_watcher [OF example_watch])
  let ?nokey = "example_secret\<lparr>Data := (Data example_secret)(''key'' := None)\<rparr>"
  have fill_good: "fillTLSFromSecret ''giantswarm.io/cluster'' TLS_zero example_secret
      ''c-abc12'' ClusterOperatorAPICert
     = (\<lparr>CA = [0x43, 0x41, 0x3D, 0x3D], Crt = [0x43, 0x52, 0x54, 0x3D, 0x3D],
         Key = [0x4B, 0x45, 0x59, 0x3D, 0x3D]\<rparr>, None)"
    by (simp add: fill_error_cases index_label_def example_secret_def
        certificateLabel_def ClusterOperatorAPICert_def TLS_zero_def)
  have fill_bad: "fillTLSFromSecret ''giantswarm.io/cluster'' TLS_zero ?nokey
      ''c-abc12'' ClusterOperatorAPICert
     = (\<lparr>CA = [0x43, 0x41, 0x3D, 0x3D], Crt = [0x43, 0x52, 0x54, 0x3D, 0x3D], Key = []\<rparr>,
        Some (Maskf invalidSecretError ''%q key missing'' [Str ''key'']))"
    by (simp add: fill_error_cases index_label_def example_secret_def
        certificateLabel_def ClusterOperatorAPICert_def TLS_zero_def)
  have good: "SearchTLS (example_searcher
       [Recv \<lparr>Type = Added, Object = SecretObject (Some example_secret)\<rparr>])
     ''giantswarm.io/cluster'' ''c-abc12'' ClusterOperatorAPICert
     = Some (\<lparr>CA = [0x43, 0x41, 0x3D, 0x3D], Crt = [0x43, 0x52, 0x54, 0x3D, 0x3D],
         Key = [0x4B, 0x45, 0x59, 0x3D, 0x3D]\<rparr>, None)"
    by (simp add: SearchTLS_def s fill_good)
  have bad: "SearchTLS (example_searcher
       [Recv \<lparr>Type = Added, Object = SecretObject (Some ?nokey)\<rparr>])
     ''giantswarm.io/cluster'' ''c-abc12'' ClusterOperatorAPICert
     = Some (TLS_zero, Some (Maskf invalidSecretError ''%q key missing'' [Str ''key'']))"
    by (simp add: SearchTLS_def s fill_bad Mask_def)
  from bundle_all_or_nothing [of "example_searcher
       [Recv \<lparr>Type = Added, Object = SecretObject (Some example_secret)\<rparr>]"
       "''giantswarm.io/cluster''" "''x''" "''c-abc12''"]
    bundle_all_or_nothing [of "example_searcher
       [Recv \<lparr>Type = Added, Object = SecretObject (Some (example_secret
           \<lparr>Data := (Data example_secret)(''key'' := None)\<rparr>))\<rparr>]"
       "''giantswarm.io/cluster''" "''x''" "''c-abc12''"]
  show ?thesis by (simp add: good bad)
qed

end
